theory Spec2Isabelle
  imports Main
begin

section \<open>Python values and exceptions\<close>

text \<open>
  The CRUD layer of the Dune client (\<^verbatim>\<open>dune_client/api/query.py\<close>) moves Python
  objects between the caller and the transport: request payloads are dictionaries built
  by the client, responses are whatever the JSON parser returned. Both are values of one
  dynamically typed universe. Strings are lists of 8-bit characters, each read as the code
  point of that number; a dictionary is an association list in insertion order whose keys
  are looked up with \<open>map_of\<close>. The type parameter \<open>'p\<close> stands for the instances of
  \<^verbatim>\<open>QueryParameter\<close>, a class of \<^verbatim>\<open>dune_client.types\<close>.
\<close>

datatype pyfloat =
    Finite int int \<comment> \<open>\<open>Finite m e\<close> is the number \<open>m * 2 ^ e\<close>\<close>
  | NaN
  | Infinity bool \<comment> \<open>\<open>True\<close> for the negative one\<close>

datatype 'p py =
    PNone
  | PBool bool
  | PInt int
  | PFloat pyfloat
  | PStr string
  | PList "'p py list"
  | PDict "(string \<times> 'p py) list"
  | PObj 'p

datatype 'p exn =
    KeyError string
  | TypeError
  | ValueError
  | OverflowError
  | AttributeError string
  | AssertionError
  | DuneError "'p py" string "'p exn"
  | OtherError string \<comment> \<open>anything else a collaborator raises\<close>

fun is_KeyError :: "'p exn \<Rightarrow> bool" where
  "is_KeyError (KeyError k) = True"
| "is_KeyError e = False"

subsection \<open>Subscripting: \<^verbatim>\<open>obj[key]\<close> with a string key\<close>

text \<open>
  A dictionary without the key raises \<^verbatim>\<open>KeyError\<close>; lists and strings want integer
  indices and the other builtin values cannot be subscripted at all, which is a
  \<^verbatim>\<open>TypeError\<close>. An instance of \<^verbatim>\<open>QueryParameter\<close> is taken to behave like a plain
  object here, in iteration and under \<^verbatim>\<open>int\<close>; it never occurs in a response.
\<close>

fun py_getitem :: "'p py \<Rightarrow> string \<Rightarrow> 'p exn + 'p py" where
  "py_getitem (PDict kvs) k =
     (case map_of kvs k of None \<Rightarrow> Inl (KeyError k) | Some v \<Rightarrow> Inr v)"
| "py_getitem v k = Inl TypeError"

subsection \<open>The builtin \<^verbatim>\<open>int(x)\<close>\<close>

definition py_isspace :: "char \<Rightarrow> bool" where
  "py_isspace c \<longleftrightarrow>
     c \<in> set [CHR 0x09, CHR 0x0A, CHR 0x0B, CHR 0x0C, CHR 0x0D, CHR 0x20, CHR 0x85, CHR 0xA0]"

definition py_isdigit :: "char \<Rightarrow> bool" where
  "py_isdigit c \<longleftrightarrow> c \<in> set ''0123456789''"

definition digit_value :: "char \<Rightarrow> nat" where
  "digit_value c = of_char c - 48"

text \<open>
  Decimal digits, where one underscore may stand between two digits. The accumulator
  holds the value of the digits read so far.
\<close>

fun parse_digits :: "nat \<Rightarrow> string \<Rightarrow> nat option" where
  "parse_digits acc [] = Some acc"
| "parse_digits acc [c] =
     (if py_isdigit c then Some (10 * acc + digit_value c) else None)"
| "parse_digits acc (c # d # ds) =
     (if c = CHR ''_'' then
        (if py_isdigit d then parse_digits (10 * acc + digit_value d) ds else None)
      else if py_isdigit c then parse_digits (10 * acc + digit_value c) (d # ds)
      else None)"

definition parse_unsigned :: "string \<Rightarrow> nat option" where
  "parse_unsigned s =
     (case s of [] \<Rightarrow> None
      | c # cs \<Rightarrow> if py_isdigit c then parse_digits (digit_value c) cs else None)"

text \<open>
  \<^verbatim>\<open>int(s)\<close> for a string: surrounding white space is dropped, one sign is allowed, the
  rest is a decimal literal. The interpreter's configurable limit on the number of digits
  is not part of the model.
\<close>

definition int_of_str :: "string \<Rightarrow> int option" where
  "int_of_str s =
     (let t = rev (dropWhile py_isspace (rev (dropWhile py_isspace s)))
      in case t of [] \<Rightarrow> None
         | c # cs \<Rightarrow>
             if c = CHR ''-'' then map_option (\<lambda>n. - int n) (parse_unsigned cs)
             else if c = CHR ''+'' then map_option int (parse_unsigned cs)
             else map_option int (parse_unsigned t))"

definition trunc_float :: "int \<Rightarrow> int \<Rightarrow> int" where
  "trunc_float m e =
     (if 0 \<le> e then m * 2 ^ nat e else sgn m * (\<bar>m\<bar> div 2 ^ nat (- e)))"

fun py_int :: "'p py \<Rightarrow> 'p exn + int" where
  "py_int (PInt n) = Inr n"
| "py_int (PBool b) = Inr (if b then 1 else 0)"
| "py_int (PFloat (Finite m e)) = Inr (trunc_float m e)"
| "py_int (PFloat NaN) = Inl ValueError"
| "py_int (PFloat (Infinity b)) = Inl OverflowError"
| "py_int (PStr s) = (case int_of_str s of None \<Rightarrow> Inl ValueError | Some n \<Rightarrow> Inr n)"
| "py_int v = Inl TypeError"

subsection \<open>\<^verbatim>\<open>str(n)\<close> of an integer, as an f-string formats it\<close>

fun str_nat :: "nat \<Rightarrow> string" where
  "str_nat n =
     (if n < 10 then [''0123456789'' ! n]
      else str_nat (n div 10) @ [''0123456789'' ! (n mod 10)])"

declare str_nat.simps [simp del]

definition str_int :: "int \<Rightarrow> string" where
  "str_int i = (if i < 0 then CHR ''-'' # str_nat (nat (- i)) else str_nat (nat i))"

subsection \<open>Dictionaries, iteration and method calls\<close>

text \<open>\<^verbatim>\<open>d[k] = v\<close>: an existing key keeps its place, a new key goes to the end.\<close>

fun dict_set :: "(string \<times> 'p py) list \<Rightarrow> string \<Rightarrow> 'p py \<Rightarrow> (string \<times> 'p py) list" where
  "dict_set [] k v = [(k, v)]"
| "dict_set (kv # kvs) k v = (if fst kv = k then (k, v) # kvs else kv # dict_set kvs k v)"

text \<open>The elements a \<^verbatim>\<open>for\<close> loop visits.\<close>

fun py_iter :: "'p py \<Rightarrow> 'p exn + 'p py list" where
  "py_iter (PList xs) = Inr xs"
| "py_iter (PStr s) = Inr (map (\<lambda>c. PStr [c]) s)"
| "py_iter (PDict kvs) = Inr (map (\<lambda>kv. PStr (fst kv)) kvs)"
| "py_iter v = Inl TypeError"

text \<open>
  \<^verbatim>\<open>p.to_dict()\<close>. The method belongs to \<^verbatim>\<open>QueryParameter\<close>, whose source is not
  part of this development, so it is a parameter \<open>to_dict\<close> of every operation that
  serialises parameters; no builtin value has an attribute of that name.
\<close>

fun call_to_dict :: "('p \<Rightarrow> 'p exn + 'p py) \<Rightarrow> 'p py \<Rightarrow> 'p exn + 'p py" where
  "call_to_dict to_dict (PObj q) = to_dict q"
| "call_to_dict to_dict v = Inl (AttributeError ''to_dict'')"

text \<open>A list comprehension whose element expression may raise: the first failure wins.\<close>

fun map_result :: "('a \<Rightarrow> 'e + 'b) \<Rightarrow> 'a list \<Rightarrow> 'e + 'b list" where
  "map_result f [] = Inr []"
| "map_result f (x # xs) =
     (case f x of Inl e \<Rightarrow> Inl e
      | Inr y \<Rightarrow> (case map_result f xs of Inl e \<Rightarrow> Inl e | Inr ys \<Rightarrow> Inr (y # ys)))"

section \<open>The client's world: transport, request log, logger\<close>

datatype http_method = GET | POST | PATCH

record 'p request =
  verb :: http_method
  route :: string
  body :: "'p py option"

text \<open>
  The transport is whatever answers a request: it maps a request and the state of the
  service to the parsed response body, or to the exception the transport raises, and to the
  next state of the service.
\<close>

type_synonym ('s, 'p) transport = "'p request \<Rightarrow> 's \<Rightarrow> ('p exn + 'p py) \<times> 's"

record ('s, 'p) world =
  server :: 's
  sent :: "'p request list"
  warnings :: "string list"

type_synonym ('s, 'p, 'a) action = "('s, 'p) world \<Rightarrow> ('p exn + 'a) \<times> ('s, 'p) world"

definition returns :: "'a \<Rightarrow> ('s, 'p, 'a) action" where
  "returns x w = (Inr x, w)"

definition raises :: "'p exn \<Rightarrow> ('s, 'p, 'a) action" where
  "raises e w = (Inl e, w)"

definition lift_result :: "'p exn + 'a \<Rightarrow> ('s, 'p, 'a) action" where
  "lift_result r w = (r, w)"

definition and_then :: "('s, 'p, 'a) action \<Rightarrow> ('a \<Rightarrow> ('s, 'p, 'b) action) \<Rightarrow> ('s, 'p, 'b) action" where
  "and_then m f w = (case m w of (Inl e, w') \<Rightarrow> (Inl e, w') | (Inr x, w') \<Rightarrow> f x w')"

text \<open>\<^verbatim>\<open>try: body except KeyError as err: handler\<close>\<close>

definition except_KeyError ::
  "('s, 'p, 'a) action \<Rightarrow> ('p exn \<Rightarrow> ('s, 'p, 'a) action) \<Rightarrow> ('s, 'p, 'a) action" where
  "except_KeyError block handler w =
     (case block w of
        (Inl err, w') \<Rightarrow> if is_KeyError err then handler err w' else (Inl err, w')
      | (Inr x, w') \<Rightarrow> (Inr x, w'))"

text \<open>
  Modelled from the spec: the transport primitive of \<^verbatim>\<open>BaseRouter\<close>
  (\<^verbatim>\<open>dune_client.api.base\<close>: \<^verbatim>\<open>_get\<close>, \<^verbatim>\<open>_post\<close>, \<^verbatim>\<open>_patch\<close> and the \<^verbatim>\<open>logger\<close>),
  which "issues GET/POST/PATCH requests [...], returns parsed JSON or raises". Every call
  is one request, recorded in \<open>sent\<close>.
\<close>

definition send :: "('s, 'p) transport \<Rightarrow> 'p request \<Rightarrow> ('s, 'p, 'p py) action" where
  "send http rq w =
     (case http rq (server w) of
        (r, s') \<Rightarrow> (r, w\<lparr>server := s', sent := sent w @ [rq]\<rparr>))"

definition router_get :: "('s, 'p) transport \<Rightarrow> string \<Rightarrow> ('s, 'p, 'p py) action" where
  "router_get http rt = send http \<lparr>verb = GET, route = rt, body = None\<rparr>"

definition router_post ::
  "('s, 'p) transport \<Rightarrow> string \<Rightarrow> 'p py option \<Rightarrow> ('s, 'p, 'p py) action" where
  "router_post http rt params = send http \<lparr>verb = POST, route = rt, body = params\<rparr>"

definition router_patch ::
  "('s, 'p) transport \<Rightarrow> string \<Rightarrow> 'p py option \<Rightarrow> ('s, 'p, 'p py) action" where
  "router_patch http rt params = send http \<lparr>verb = PATCH, route = rt, body = params\<rparr>"

definition logger_warning :: "string \<Rightarrow> ('s, 'p, unit) action" where
  "logger_warning msg w = (Inr (), w\<lparr>warnings := warnings w @ [msg]\<rparr>)"

section \<open>The query model\<close>

text \<open>
  Modelled from the spec: the class \<^verbatim>\<open>DuneQuery\<close> of \<^verbatim>\<open>dune_client.query\<close>, "a query
  (id, name, SQL text, typed parameters, metadata: privacy/archived flags)". The CRUD code
  reads \<^verbatim>\<open>.meta.is_archived\<close> and \<^verbatim>\<open>.meta.is_private\<close> only; the base part (id, name,
  parameters) stays abstract. Its decoder \<^verbatim>\<open>DuneQuery.from_dict\<close> is a parameter
  \<open>from_dict\<close> of every operation that reads a query.
\<close>

record QueryMeta =
  is_private :: bool
  is_archived :: bool

record 'b DuneQuery =
  base :: 'b
  meta :: QueryMeta
  sql :: string

section \<open>\<^verbatim>\<open>UpdateQueryParams\<close>\<close>

text \<open>
  The named tuple, with its fields in the order of the class: \<^verbatim>\<open>name\<close>,
  \<^verbatim>\<open>query_sql\<close>, \<^verbatim>\<open>params\<close>, \<^verbatim>\<open>description\<close>, \<^verbatim>\<open>tags\<close>.
\<close>

datatype 'p UpdateQueryParams =
  UpdateQueryParams "string option" "string option" "'p list option" "string option"
    "string list option"

text \<open>\<^verbatim>\<open>UpdateQueryParams()\<close>: every field at its default.\<close>

definition UpdateQueryParams_default :: "'p UpdateQueryParams" where
  "UpdateQueryParams_default = UpdateQueryParams None None None None None"

text \<open>
  Attribute access \<^verbatim>\<open>obj.attr\<close> on an instance, by the name the source writes. The five
  declared fields are the data attributes of the named tuple; the methods it inherits from
  \<^verbatim>\<open>tuple\<close> are not read by this code and not listed.
\<close>

definition opt_py :: "('a \<Rightarrow> 'p py) \<Rightarrow> 'a option \<Rightarrow> 'p py" where
  "opt_py f x = (case x of None \<Rightarrow> PNone | Some v \<Rightarrow> f v)"

fun UpdateQueryParams_getattr :: "'p UpdateQueryParams \<Rightarrow> string \<Rightarrow> 'p exn + 'p py" where
  "UpdateQueryParams_getattr (UpdateQueryParams name query_sql params description tags) attr =
     (if attr = ''name'' then Inr (opt_py PStr name)
      else if attr = ''query_sql'' then Inr (opt_py PStr query_sql)
      else if attr = ''params'' then Inr (opt_py (\<lambda>ps. PList (map PObj ps)) params)
      else if attr = ''description'' then Inr (opt_py PStr description)
      else if attr = ''tags'' then Inr (opt_py (\<lambda>ts. PList (map PStr ts)) tags)
      else Inl (AttributeError attr))"

section \<open>\<^verbatim>\<open>QueryAPI\<close>\<close>

definition get_query ::
  "('s, 'p) transport \<Rightarrow> ('p py \<Rightarrow> 'p exn + 'b DuneQuery) \<Rightarrow> int \<Rightarrow> ('s, 'p, 'b DuneQuery) action" where
  "get_query http from_dict query_id =
     and_then (router_get http (''/query/'' @ str_int query_id)) (\<lambda>response_json.
       lift_result (from_dict response_json))"

definition create_query ::
  "('s, 'p) transport \<Rightarrow> ('p py \<Rightarrow> 'p exn + 'b DuneQuery) \<Rightarrow> ('p \<Rightarrow> 'p exn + 'p py) \<Rightarrow>
     string \<Rightarrow> string \<Rightarrow> 'p list option \<Rightarrow> bool \<Rightarrow> ('s, 'p, 'b DuneQuery) action" where
  "create_query http from_dict to_dict = (\<lambda>name query_sql params is_private.
     (let payload = [(''name'', PStr name), (''query_sql'', PStr query_sql),
                     (''is_private'', PBool is_private)]
      in and_then
           (case params of
              None \<Rightarrow> returns payload
            | Some ps \<Rightarrow>
                and_then (lift_result (map_result to_dict ps)) (\<lambda>ds.
                  returns (dict_set payload ''parameters'' (PList ds))))
           (\<lambda>payload.
              and_then (router_post http ''/query/'' (Some (PDict payload))) (\<lambda>response_json.
                except_KeyError
                  (and_then (lift_result (py_getitem response_json ''query_id'')) (\<lambda>v.
                   and_then (lift_result (py_int v)) (\<lambda>query_id.
                     get_query http from_dict query_id)))
                  (\<lambda>err. raises (DuneError response_json ''CreateQueryResponse'' err))))))"

text \<open>
  One step of the payload construction of \<^verbatim>\<open>update_query\<close>:
  \<^verbatim>\<open>if params.attr is not None: parameters[key] = params.attr\<close>.
\<close>

definition copy_attr ::
  "'p UpdateQueryParams \<Rightarrow> string \<Rightarrow> string \<Rightarrow> (string \<times> 'p py) list \<Rightarrow>
     'p exn + (string \<times> 'p py) list" where
  "copy_attr obj attr key parameters =
     (case UpdateQueryParams_getattr obj attr of
        Inl e \<Rightarrow> Inl e
      | Inr v \<Rightarrow> Inr (if v \<noteq> PNone then dict_set parameters key v else parameters))"

text \<open>
  \<^verbatim>\<open>update_query\<close>, statement by statement. The source reads the attributes \<^verbatim>\<open>name\<close>,
  \<^verbatim>\<open>description\<close>, \<^verbatim>\<open>tags\<close>, \<^verbatim>\<open>query_sql\<close> and then \<^verbatim>\<open>query_parms\<close>:
  \<^verbatim>\<open>if params.query_parms is not None:
      parameters["parameters"] = [p.to_dict() for p in params.query_parms]\<close>
  and only after that tests \<^verbatim>\<open>if not bool(parameters)\<close>, warns and returns the id, or
  sends the \<^verbatim>\<open>PATCH\<close> and converts \<^verbatim>\<open>response_json["query_id"]\<close> inside
  \<^verbatim>\<open>try ... except KeyError\<close>.
\<close>

definition update_query ::
  "('s, 'p) transport \<Rightarrow> ('p \<Rightarrow> 'p exn + 'p py) \<Rightarrow> int \<Rightarrow> 'p UpdateQueryParams option \<Rightarrow>
     ('s, 'p, int) action" where
  "update_query http to_dict query_id params =
     (let params = (case params of None \<Rightarrow> UpdateQueryParams_default | Some p \<Rightarrow> p)
      in and_then (lift_result (copy_attr params ''name'' ''name'' [])) (\<lambda>parameters.
         and_then (lift_result (copy_attr params ''description'' ''description'' parameters)) (\<lambda>parameters.
         and_then (lift_result (copy_attr params ''tags'' ''tags'' parameters)) (\<lambda>parameters.
         and_then (lift_result (copy_attr params ''query_sql'' ''query_sql'' parameters)) (\<lambda>parameters.
         and_then (lift_result (UpdateQueryParams_getattr params ''query_parms'')) (\<lambda>query_parms.
         and_then
           (if query_parms \<noteq> PNone then
              and_then (lift_result (py_iter query_parms)) (\<lambda>ps.
              and_then (lift_result (map_result (call_to_dict to_dict) ps)) (\<lambda>ds.
                returns (dict_set parameters ''parameters'' (PList ds))))
            else returns parameters)
           (\<lambda>parameters.
              if parameters = [] then
                and_then (logger_warning ''called update_query with no proposed changes.'') (\<lambda>u.
                  returns query_id)
              else
                and_then (router_patch http (''/query/'' @ str_int query_id) (Some (PDict parameters)))
                  (\<lambda>response_json.
                     except_KeyError
                       (and_then (lift_result (py_getitem response_json ''query_id'')) (\<lambda>v.
                          lift_result (py_int v)))
                       (\<lambda>err. raises (DuneError response_json ''UpdateQueryResponse'' err))))))))))"

definition archive_query ::
  "('s, 'p) transport \<Rightarrow> ('p py \<Rightarrow> 'p exn + 'b DuneQuery) \<Rightarrow> int \<Rightarrow> ('s, 'p, bool) action" where
  "archive_query http from_dict query_id =
     and_then (router_post http (''/query/'' @ str_int query_id @ ''/archive'') None) (\<lambda>response_json.
       except_KeyError
         (and_then (lift_result (py_getitem response_json ''query_id'')) (\<lambda>v.
          and_then (lift_result (py_int v)) (\<lambda>q.
          and_then (get_query http from_dict q) (\<lambda>dq.
            returns (is_archived (meta dq))))))
         (\<lambda>err. raises (DuneError response_json ''ArchiveQueryResponse'' err)))"

definition unarchive_query ::
  "('s, 'p) transport \<Rightarrow> ('p py \<Rightarrow> 'p exn + 'b DuneQuery) \<Rightarrow> int \<Rightarrow> ('s, 'p, bool) action" where
  "unarchive_query http from_dict query_id =
     and_then (router_post http (''/query/'' @ str_int query_id @ ''/unarchive'') None) (\<lambda>response_json.
       except_KeyError
         (and_then (lift_result (py_getitem response_json ''query_id'')) (\<lambda>v.
          and_then (lift_result (py_int v)) (\<lambda>q.
          and_then (get_query http from_dict q) (\<lambda>dq.
            returns (is_archived (meta dq))))))
         (\<lambda>err. raises (DuneError response_json ''UnarchiveQueryResponse'' err)))"

text \<open>\<^verbatim>\<open>assert cond\<close>, with assertions enabled.\<close>

definition py_assert :: "bool \<Rightarrow> ('s, 'p, unit) action" where
  "py_assert cond = (if cond then returns () else raises AssertionError)"

definition make_private ::
  "('s, 'p) transport \<Rightarrow> ('p py \<Rightarrow> 'p exn + 'b DuneQuery) \<Rightarrow> int \<Rightarrow> ('s, 'p, unit) action" where
  "make_private http from_dict query_id =
     and_then (router_post http (''/query/'' @ str_int query_id @ ''/private'') None) (\<lambda>response_json.
       except_KeyError
         (and_then (lift_result (py_getitem response_json ''query_id'')) (\<lambda>v.
          and_then (lift_result (py_int v)) (\<lambda>q.
          and_then (get_query http from_dict q) (\<lambda>dq.
            py_assert (is_private (meta dq))))))
         (\<lambda>err. raises (DuneError response_json ''MakePrivateResponse'' err)))"

definition make_public ::
  "('s, 'p) transport \<Rightarrow> ('p py \<Rightarrow> 'p exn + 'b DuneQuery) \<Rightarrow> int \<Rightarrow> ('s, 'p, unit) action" where
  "make_public http from_dict query_id =
     and_then (router_post http (''/query/'' @ str_int query_id @ ''/unprivate'') None) (\<lambda>response_json.
       except_KeyError
         (and_then (lift_result (py_getitem response_json ''query_id'')) (\<lambda>v.
          and_then (lift_result (py_int v)) (\<lambda>q.
          and_then (get_query http from_dict q) (\<lambda>dq.
            py_assert (\<not> is_private (meta dq))))))
         (\<lambda>err. raises (DuneError response_json ''MakePublicResponse'' err)))"

section \<open>Requests of the CRUD routes\<close>

text \<open>
  The two shapes of request the state-changing operations send: the action
  \<^verbatim>\<open>POST /query/{id}{suffix}\<close> without a body and the read \<^verbatim>\<open>GET /query/{id}\<close>.
\<close>

definition action_request :: "int \<Rightarrow> string \<Rightarrow> 'p request" where
  "action_request i suffix =
     \<lparr>verb = POST, route = ''/query/'' @ str_int i @ suffix, body = None\<rparr>"

definition read_request :: "int \<Rightarrow> 'p request" where
  "read_request i = \<lparr>verb = GET, route = ''/query/'' @ str_int i, body = None\<rparr>"

section \<open>A model of the service\<close>

text \<open>
  Modelled from the spec: the service behind the transport, which is not part of the
  client. It keeps the stored queries by id and answers the routes of the external
  interface: \<^verbatim>\<open>POST /query/\<close> creates a query and answers \<^verbatim>\<open>{query_id}\<close>,
  \<^verbatim>\<open>GET /query/{id}\<close> answers the query object, and
  \<^verbatim>\<open>POST /query/{id}/archive\<close>, \<^verbatim>\<open>/unarchive\<close>, \<^verbatim>\<open>/private\<close>, \<^verbatim>\<open>/unprivate\<close> change one
  flag and answer \<^verbatim>\<open>{query_id}\<close>. Everything else, and every id that is not stored, is
  answered with an error payload \<^verbatim>\<open>{"error": ...}\<close>.
\<close>

record stored_query =
  st_name :: string
  st_sql :: string
  st_private :: bool
  st_archived :: bool

type_synonym service = "(nat \<times> stored_query) list"

definition query_object :: "nat \<Rightarrow> stored_query \<Rightarrow> 'p py" where
  "query_object i q =
     PDict [(''query_id'', PInt (int i)), (''name'', PStr (st_name q)),
            (''query_sql'', PStr (st_sql q)), (''is_private'', PBool (st_private q)),
            (''is_archived'', PBool (st_archived q))]"

definition error_payload :: "string \<Rightarrow> 'p py" where
  "error_payload msg = PDict [(''error'', PStr msg)]"

definition id_payload :: "nat \<Rightarrow> 'p py" where
  "id_payload i = PDict [(''query_id'', PInt (int i))]"

definition parse_route :: "string \<Rightarrow> (nat \<times> string) option" where
  "parse_route r =
     (if take 7 r = ''/query/'' then
        (let rest = drop 7 r; ds = takeWhile py_isdigit rest
         in if ds = [] then None
            else Some (foldl (\<lambda>a c. 10 * a + digit_value c) 0 ds, dropWhile py_isdigit rest))
      else None)"

definition modify :: "nat \<Rightarrow> (stored_query \<Rightarrow> stored_query) \<Rightarrow> service \<Rightarrow> service" where
  "modify i f st = map (\<lambda>kq. if fst kq = i then (i, f (snd kq)) else kq) st"

definition fresh_id :: "service \<Rightarrow> nat" where
  "fresh_id st = Suc (foldr max (map fst st) 0)"

definition service_create :: "'p py option \<Rightarrow> service \<Rightarrow> ('p exn + 'p py) \<times> service" where
  "service_create b st =
     (case b of
        Some (PDict kvs) \<Rightarrow>
          (case (map_of kvs ''name'', map_of kvs ''query_sql'', map_of kvs ''is_private'') of
             (Some (PStr n), Some (PStr q), Some (PBool p)) \<Rightarrow>
               (Inr (id_payload (fresh_id st)),
                st @ [(fresh_id st,
                       \<lparr>st_name = n, st_sql = q, st_private = p, st_archived = False\<rparr>)])
           | _ \<Rightarrow> (Inr (error_payload ''Bad request''), st))
      | _ \<Rightarrow> (Inr (error_payload ''Bad request''), st))"

definition dune_service :: "(service, 'p) transport" where
  "dune_service rq st =
     (if verb rq = POST \<and> route rq = ''/query/'' then service_create (body rq) st
      else
        (case parse_route (route rq) of
           None \<Rightarrow> (Inr (error_payload ''Not found''), st)
         | Some (i, suffix) \<Rightarrow>
             (case map_of st i of
                None \<Rightarrow> (Inr (error_payload ''Query not found''), st)
              | Some q \<Rightarrow>
                  if verb rq = GET \<and> suffix = [] then (Inr (query_object i q), st)
                  else if verb rq = POST \<and> suffix = ''/archive'' then
                    (Inr (id_payload i), modify i (\<lambda>q. q\<lparr>st_archived := True\<rparr>) st)
                  else if verb rq = POST \<and> suffix = ''/unarchive'' then
                    (Inr (id_payload i), modify i (\<lambda>q. q\<lparr>st_archived := False\<rparr>) st)
                  else if verb rq = POST \<and> suffix = ''/private'' then
                    (Inr (id_payload i), modify i (\<lambda>q. q\<lparr>st_private := True\<rparr>) st)
                  else if verb rq = POST \<and> suffix = ''/unprivate'' then
                    (Inr (id_payload i), modify i (\<lambda>q. q\<lparr>st_private := False\<rparr>) st)
                  else (Inr (error_payload ''Not found''), st))))"

text \<open>
  Modelled from the spec: a decoder for the query object in the place of
  \<^verbatim>\<open>DuneQuery.from_dict\<close>, which "fetches and deserializes; fails with DuneError on
  malformed response". The base part is the pair of id and name.
\<close>

fun get_int :: "'p py \<Rightarrow> 'p exn + int" where
  "get_int (PInt n) = Inr n"
| "get_int v = Inl TypeError"

fun get_str :: "'p py \<Rightarrow> 'p exn + string" where
  "get_str (PStr s) = Inr s"
| "get_str v = Inl TypeError"

fun get_bool :: "'p py \<Rightarrow> 'p exn + bool" where
  "get_bool (PBool b) = Inr b"
| "get_bool v = Inl TypeError"

definition field :: "('p py \<Rightarrow> 'p exn + 'a) \<Rightarrow> 'p py \<Rightarrow> string \<Rightarrow> 'p exn + 'a" where
  "field get payload k = (case py_getitem payload k of Inl e \<Rightarrow> Inl e | Inr v \<Rightarrow> get v)"

definition decode_query :: "'p py \<Rightarrow> 'p exn + (int \<times> string) DuneQuery" where
  "decode_query payload =
     (case field get_int payload ''query_id'' of Inl e \<Rightarrow> Inl e | Inr i \<Rightarrow>
      case field get_str payload ''name'' of Inl e \<Rightarrow> Inl e | Inr n \<Rightarrow>
      case field get_str payload ''query_sql'' of Inl e \<Rightarrow> Inl e | Inr q \<Rightarrow>
      case field get_bool payload ''is_private'' of Inl e \<Rightarrow> Inl e | Inr p \<Rightarrow>
      case field get_bool payload ''is_archived'' of Inl e \<Rightarrow> Inl e | Inr a \<Rightarrow>
        Inr \<lparr>base = (i, n), meta = \<lparr>is_private = p, is_archived = a\<rparr>, sql = q\<rparr>)"

definition from_dict_service :: "'p py \<Rightarrow> 'p exn + (int \<times> string) DuneQuery" where
  "from_dict_service payload =
     (case decode_query payload of
        Inl e \<Rightarrow> Inl (DuneError payload ''DuneQuery'' e)
      | Inr dq \<Rightarrow> Inr dq)"

text \<open>A second service, which answers every \<^verbatim>\<open>POST\<close> with the id 8 and changes nothing.\<close>

definition misdirecting_service :: "(service, 'p) transport" where
  "misdirecting_service rq st =
     (if verb rq = POST then (Inr (id_payload 8), st) else dune_service rq st)"

text \<open>Two services that answer every request with one fixed body.\<close>

definition error_service :: "(unit, 'p) transport" where
  "error_service rq s = (Inr (error_payload ''invalid API Key''), s)"

definition garbled_service :: "(unit, 'p) transport" where
  "garbled_service rq s = (Inr (PDict [(''query_id'', PStr ''abc'')]), s)"

text \<open>
  What it means for a transport to honour the archive routes for the query \<open>i\<close>, where
  \<open>flag s\<close> is the archived flag of that query in the state \<open>s\<close> of the service (\<open>None\<close>
  when the query does not exist): the action routes answer with the id and set or clear
  the flag, and the read route reports the flag and leaves it alone.
\<close>

definition honors_archive_routes ::
  "('s, 'p) transport \<Rightarrow> ('p py \<Rightarrow> 'p exn + 'b DuneQuery) \<Rightarrow> ('s \<Rightarrow> bool option) \<Rightarrow> int \<Rightarrow> bool" where
  "honors_archive_routes http from_dict flag i \<longleftrightarrow>
     (\<forall>s. flag s \<noteq> None \<longrightarrow>
        (\<exists>resp v s'. http (action_request i ''/archive'') s = (Inr resp, s') \<and>
            py_getitem resp ''query_id'' = Inr v \<and> py_int v = Inr i \<and> flag s' = Some True) \<and>
        (\<exists>resp v s'. http (action_request i ''/unarchive'') s = (Inr resp, s') \<and>
            py_getitem resp ''query_id'' = Inr v \<and> py_int v = Inr i \<and> flag s' = Some False) \<and>
        (\<exists>got dq s'. http (read_request i) s = (Inr got, s') \<and> from_dict got = Inr dq \<and>
            flag s = Some (is_archived (meta dq)) \<and> flag s' = flag s))"

definition archived_flag :: "nat \<Rightarrow> service \<Rightarrow> bool option" where
  "archived_flag i st = map_option st_archived (map_of st i)"

text \<open>Sample data: a store with the queries 7 and 8, and a parameter serialiser.\<close>

definition sample_store :: service where
  "sample_store =
     [(7, \<lparr>st_name = ''seven'', st_sql = ''select 7'', st_private = False, st_archived = False\<rparr>),
      (8, \<lparr>st_name = ''eight'', st_sql = ''select 8'', st_private = False, st_archived = True\<rparr>)]"

definition sample_world :: "(service, string) world" where
  "sample_world = \<lparr>server = sample_store, sent = [], warnings = []\<rparr>"

definition blank_world :: "(unit, string) world" where
  "blank_world = \<lparr>server = (), sent = [], warnings = []\<rparr>"

definition sample_to_dict :: "string \<Rightarrow> string exn + string py" where
  "sample_to_dict p = Inr (PDict [(''key'', PStr p)])"

section \<open>Evaluation rules\<close>

lemmas action_defs = and_then_def lift_result_def returns_def raises_def except_KeyError_def
  send_def router_get_def router_post_def router_patch_def logger_warning_def py_assert_def
  action_request_def read_request_def

lemmas service_defs = dune_service_def service_create_def fresh_id_def parse_route_def
  py_isdigit_def digit_value_def id_payload_def error_payload_def query_object_def modify_def
  from_dict_service_def decode_query_def field_def str_int_def str_nat.simps
  sample_store_def sample_world_def

section \<open>\<^verbatim>\<open>update_query\<close> reads an attribute the tuple does not have\<close>

text \<open>
  \<^verbatim>\<open>update_query\<close> reads \<^verbatim>\<open>params.query_parms\<close> in the condition of its fifth \<^verbatim>\<open>if\<close>,
  on every path, before it looks whether anything was collected. The named tuple declares
  that field as \<^verbatim>\<open>params\<close>. So every call ends there, with the world untouched: nothing
  is sent and nothing is logged.
\<close>

lemma getattr_query_parms:
  "UpdateQueryParams_getattr p ''query_parms'' = Inl (AttributeError ''query_parms'')"
  by (cases p) simp

lemma update_query_raises:
  "update_query http to_dict i p w = (Inl (AttributeError ''query_parms''), w)"
proof -
  obtain a b c d e where
    "(case p of None \<Rightarrow> UpdateQueryParams_default | Some q \<Rightarrow> q) = UpdateQueryParams a b c d e"
    by (cases "case p of None \<Rightarrow> UpdateQueryParams_default | Some q \<Rightarrow> q") auto
  then show ?thesis
    by (simp add: update_query_def copy_attr_def and_then_def lift_result_def)
qed

section \<open>The success path of the operations that read after they write\<close>

lemma py_int_not_KeyError: "py_int v = Inl e \<Longrightarrow> \<not> is_KeyError e"
  by (induction v rule: py_int.induct) (auto split: option.splits)

lemma archive_ok:
  assumes "http (action_request i ''/archive'') (server w) = (Inr resp, sa)"
    and "py_getitem resp ''query_id'' = Inr v" and "py_int v = Inr j"
    and "http (read_request j) sa = (Inr got, sb)"
    and "from_dict got = Inr dq"
  shows "archive_query http from_dict i w =
      (Inr (is_archived (meta dq)),
       w\<lparr>server := sb, sent := sent w @ [action_request i ''/archive'', read_request j]\<rparr>)"
  using assms by (simp add: archive_query_def get_query_def action_defs)

lemma unarchive_ok:
  assumes "http (action_request i ''/unarchive'') (server w) = (Inr resp, sa)"
    and "py_getitem resp ''query_id'' = Inr v" and "py_int v = Inr j"
    and "http (read_request j) sa = (Inr got, sb)"
    and "from_dict got = Inr dq"
  shows "unarchive_query http from_dict i w =
      (Inr (is_archived (meta dq)),
       w\<lparr>server := sb, sent := sent w @ [action_request i ''/unarchive'', read_request j]\<rparr>)"
  using assms by (simp add: unarchive_query_def get_query_def action_defs)

lemma private_ok:
  assumes "http (action_request i ''/private'') (server w) = (Inr resp, sa)"
    and "py_getitem resp ''query_id'' = Inr v" and "py_int v = Inr j"
    and "http (read_request j) sa = (Inr got, sb)"
    and "from_dict got = Inr dq"
  shows "make_private http from_dict i w =
      (if is_private (meta dq) then Inr () else Inl AssertionError,
       w\<lparr>server := sb, sent := sent w @ [action_request i ''/private'', read_request j]\<rparr>)"
  using assms by (simp add: make_private_def get_query_def action_defs)

lemma public_ok:
  assumes "http (action_request i ''/unprivate'') (server w) = (Inr resp, sa)"
    and "py_getitem resp ''query_id'' = Inr v" and "py_int v = Inr j"
    and "http (read_request j) sa = (Inr got, sb)"
    and "from_dict got = Inr dq"
  shows "make_public http from_dict i w =
      (if is_private (meta dq) then Inl AssertionError else Inr (),
       w\<lparr>server := sb, sent := sent w @ [action_request i ''/unprivate'', read_request j]\<rparr>)"
  using assms by (simp add: make_public_def get_query_def action_defs)

lemma create_ok:
  assumes "map_result to_dict (case params of None \<Rightarrow> [] | Some ps \<Rightarrow> ps) = Inr ds"
    and "payload = PDict ([(''name'', PStr name), (''query_sql'', PStr query_sql),
              (''is_private'', PBool is_priv)]
             @ (case params of None \<Rightarrow> [] | Some ps \<Rightarrow> [(''parameters'', PList ds)]))"
    and "http \<lparr>verb = POST, route = ''/query/'', body = Some payload\<rparr> (server w)
           = (Inr resp, sa)"
    and "py_getitem resp ''query_id'' = Inr v" and "py_int v = Inr j"
    and "http (read_request j) sa = (Inr got, sb)"
    and "from_dict got = Inr dq"
  shows "create_query http from_dict to_dict name query_sql params is_priv w =
      (Inr dq,
       w\<lparr>server := sb,
           sent := sent w @ [\<lparr>verb = POST, route = ''/query/'', body = Some payload\<rparr>,
                             read_request j]\<rparr>)"
  using assms by (cases params) (simp_all add: create_query_def get_query_def action_defs)

section \<open>A response object without the key \<^verbatim>\<open>query_id\<close>\<close>

text \<open>
  The five operations that reach their \<^verbatim>\<open>try\<close> block turn the failed lookup into a
  \<^verbatim>\<open>DuneError\<close> with the response, the name of the response type and the \<^verbatim>\<open>KeyError\<close>.
\<close>

lemma create_query_missing_key:
  assumes "map_result to_dict (case params of None \<Rightarrow> [] | Some ps \<Rightarrow> ps) = Inr ds"
    and "payload = PDict ([(''name'', PStr name), (''query_sql'', PStr query_sql),
              (''is_private'', PBool is_priv)]
             @ (case params of None \<Rightarrow> [] | Some ps \<Rightarrow> [(''parameters'', PList ds)]))"
    and "http \<lparr>verb = POST, route = ''/query/'', body = Some payload\<rparr> (server w)
           = (Inr (PDict kvs), sa)"
    and "map_of kvs ''query_id'' = None"
  shows "create_query http from_dict to_dict name query_sql params is_priv w =
      (Inl (DuneError (PDict kvs) ''CreateQueryResponse'' (KeyError ''query_id'')),
       w\<lparr>server := sa,
           sent := sent w @ [\<lparr>verb = POST, route = ''/query/'', body = Some payload\<rparr>]\<rparr>)"
  using assms by (cases params) (simp_all add: create_query_def action_defs)

lemma archive_query_missing_key:
  assumes "http (action_request i ''/archive'') (server w) = (Inr (PDict kvs), sa)"
    and "map_of kvs ''query_id'' = None"
  shows "archive_query http from_dict i w =
      (Inl (DuneError (PDict kvs) ''ArchiveQueryResponse'' (KeyError ''query_id'')),
       w\<lparr>server := sa, sent := sent w @ [action_request i ''/archive'']\<rparr>)"
  using assms by (simp add: archive_query_def action_defs)

lemma unarchive_query_missing_key:
  assumes "http (action_request i ''/unarchive'') (server w) = (Inr (PDict kvs), sa)"
    and "map_of kvs ''query_id'' = None"
  shows "unarchive_query http from_dict i w =
      (Inl (DuneError (PDict kvs) ''UnarchiveQueryResponse'' (KeyError ''query_id'')),
       w\<lparr>server := sa, sent := sent w @ [action_request i ''/unarchive'']\<rparr>)"
  using assms by (simp add: unarchive_query_def action_defs)

lemma make_private_missing_key:
  assumes "http (action_request i ''/private'') (server w) = (Inr (PDict kvs), sa)"
    and "map_of kvs ''query_id'' = None"
  shows "make_private http from_dict i w =
      (Inl (DuneError (PDict kvs) ''MakePrivateResponse'' (KeyError ''query_id'')),
       w\<lparr>server := sa, sent := sent w @ [action_request i ''/private'']\<rparr>)"
  using assms by (simp add: make_private_def action_defs)

lemma make_public_missing_key:
  assumes "http (action_request i ''/unprivate'') (server w) = (Inr (PDict kvs), sa)"
    and "map_of kvs ''query_id'' = None"
  shows "make_public http from_dict i w =
      (Inl (DuneError (PDict kvs) ''MakePublicResponse'' (KeyError ''query_id'')),
       w\<lparr>server := sa, sent := sent w @ [action_request i ''/unprivate'']\<rparr>)"
  using assms by (simp add: make_public_def action_defs)

section \<open>A \<^verbatim>\<open>query_id\<close> that is not an integer\<close>

text \<open>
  \<^verbatim>\<open>int\<close> never raises a \<^verbatim>\<open>KeyError\<close>, so in the five operations that reach their
  \<^verbatim>\<open>try\<close> block its exception passes the handler as it is, and no read follows.
\<close>

lemma create_query_bad_id:
  assumes "map_result to_dict (case params of None \<Rightarrow> [] | Some ps \<Rightarrow> ps) = Inr ds"
    and "payload = PDict ([(''name'', PStr name), (''query_sql'', PStr query_sql),
              (''is_private'', PBool is_priv)]
             @ (case params of None \<Rightarrow> [] | Some ps \<Rightarrow> [(''parameters'', PList ds)]))"
    and "http \<lparr>verb = POST, route = ''/query/'', body = Some payload\<rparr> (server w)
           = (Inr resp, sa)"
    and "py_getitem resp ''query_id'' = Inr v" and "py_int v = Inl e"
  shows "create_query http from_dict to_dict name query_sql params is_priv w =
      (Inl e,
       w\<lparr>server := sa,
           sent := sent w @ [\<lparr>verb = POST, route = ''/query/'', body = Some payload\<rparr>]\<rparr>)"
  using assms py_int_not_KeyError [of v e]
  by (cases params) (simp_all add: create_query_def action_defs)

lemma archive_query_bad_id:
  assumes "http (action_request i ''/archive'') (server w) = (Inr resp, sa)"
    and "py_getitem resp ''query_id'' = Inr v" and "py_int v = Inl e"
  shows "archive_query http from_dict i w =
      (Inl e, w\<lparr>server := sa, sent := sent w @ [action_request i ''/archive'']\<rparr>)"
  using assms py_int_not_KeyError [of v e] by (simp add: archive_query_def action_defs)

lemma unarchive_query_bad_id:
  assumes "http (action_request i ''/unarchive'') (server w) = (Inr resp, sa)"
    and "py_getitem resp ''query_id'' = Inr v" and "py_int v = Inl e"
  shows "unarchive_query http from_dict i w =
      (Inl e, w\<lparr>server := sa, sent := sent w @ [action_request i ''/unarchive'']\<rparr>)"
  using assms py_int_not_KeyError [of v e] by (simp add: unarchive_query_def action_defs)

lemma make_private_bad_id:
  assumes "http (action_request i ''/private'') (server w) = (Inr resp, sa)"
    and "py_getitem resp ''query_id'' = Inr v" and "py_int v = Inl e"
  shows "make_private http from_dict i w =
      (Inl e, w\<lparr>server := sa, sent := sent w @ [action_request i ''/private'']\<rparr>)"
  using assms py_int_not_KeyError [of v e] by (simp add: make_private_def action_defs)

lemma make_public_bad_id:
  assumes "http (action_request i ''/unprivate'') (server w) = (Inr resp, sa)"
    and "py_getitem resp ''query_id'' = Inr v" and "py_int v = Inl e"
  shows "make_public http from_dict i w =
      (Inl e, w\<lparr>server := sa, sent := sent w @ [action_request i ''/unprivate'']\<rparr>)"
  using assms py_int_not_KeyError [of v e] by (simp add: make_public_def action_defs)

section \<open>The model service honours the archive routes\<close>

lemma digit_at: "k < 10 \<Longrightarrow> py_isdigit (''0123456789'' ! k) \<and> digit_value (''0123456789'' ! k) = k"
proof -
  assume "k < 10"
  then have "k \<in> {0,1,2,3,4,5,6,7,8,9}" by auto
  then show ?thesis by (auto simp: py_isdigit_def digit_value_def)
qed

lemma str_nat_digits: "\<forall>c \<in> set (str_nat n). py_isdigit c"
proof (induction n rule: str_nat.induct)
  case (1 n)
  show ?case
  proof (cases "n < 10")
    case True
    then show ?thesis using digit_at [of n] by (simp add: str_nat.simps [of n])
  next
    case False
    then show ?thesis using 1 digit_at [of "n mod 10"] by (simp add: str_nat.simps [of n])
  qed
qed

lemma str_nat_nonempty: "str_nat n \<noteq> []"
  by (simp add: str_nat.simps [of n])

lemma str_nat_value: "foldl (\<lambda>a c. 10 * a + digit_value c) 0 (str_nat n) = n"
proof (induction n rule: str_nat.induct)
  case (1 n)
  show ?case
  proof (cases "n < 10")
    case True
    then show ?thesis using digit_at [of n] by (simp add: str_nat.simps [of n])
  next
    case False
    then show ?thesis using 1 digit_at [of "n mod 10"] by (simp add: str_nat.simps [of n])
  qed
qed

lemma parse_route_query:
  assumes "suffix = [] \<or> hd suffix = CHR ''/''"
  shows "parse_route (''/query/'' @ str_int (int n) @ suffix) = Some (n, suffix)"
proof -
  have nd: "suffix \<noteq> [] \<Longrightarrow> \<not> py_isdigit (hd suffix)"
    using assms by (auto simp: py_isdigit_def)
  have tw: "takeWhile py_isdigit (str_nat n @ suffix) = str_nat n"
    using str_nat_digits [of n] nd by (cases suffix) (auto simp: takeWhile_append2 takeWhile_append1)
  have dw: "dropWhile py_isdigit (str_nat n @ suffix) = suffix"
    using str_nat_digits [of n] nd by (cases suffix) (auto simp: dropWhile_append2)
  show ?thesis
    by (simp add: parse_route_def str_int_def tw dw str_nat_nonempty str_nat_value)
qed

lemma map_of_modify:
  "map_of (modify i f st) k = (if k = i then map_option f (map_of st i) else map_of st k)"
  by (induction st) (auto simp: modify_def)

lemma dune_service_honors:
  "honors_archive_routes dune_service from_dict_service (archived_flag n) (int n)"
  unfolding honors_archive_routes_def
proof (intro allI impI)
  fix st :: service
  assume "archived_flag n st \<noteq> None"
  then obtain q where q: "map_of st n = Some q" by (auto simp: archived_flag_def)
  have ne: "str_nat n \<noteq> []" by (rule str_nat_nonempty)
  have r0: "''/query/'' @ str_int (int n) @ ''/archive'' \<noteq> ''/query/''"
      "''/query/'' @ str_int (int n) @ ''/unarchive'' \<noteq> ''/query/''"
      "''/query/'' @ str_int (int n) \<noteq> ''/query/''"
    using ne by (simp_all add: str_int_def)
  show "(\<exists>resp v s'. dune_service (action_request (int n) ''/archive'') st = (Inr resp, s') \<and>
            py_getitem resp ''query_id'' = Inr v \<and> py_int v = Inr (int n) \<and> archived_flag n s' = Some True) \<and>
        (\<exists>resp v s'. dune_service (action_request (int n) ''/unarchive'') st = (Inr resp, s') \<and>
            py_getitem resp ''query_id'' = Inr v \<and> py_int v = Inr (int n) \<and> archived_flag n s' = Some False) \<and>
        (\<exists>got dq s'. dune_service (read_request (int n)) st = (Inr got, s') \<and> from_dict_service got = Inr dq \<and>
            archived_flag n st = Some (is_archived (meta dq)) \<and> archived_flag n s' = archived_flag n st)"
    using q r0 parse_route_query [of "''/archive''" n] parse_route_query [of "''/unarchive''" n]
      parse_route_query [of "[]" n]
    by (simp add: dune_service_def action_request_def read_request_def id_payload_def
        archived_flag_def map_of_modify query_object_def from_dict_service_def decode_query_def field_def)
qed

section \<open>The claims\<close>

text \<open>
  C1. Claimed: \<^verbatim>\<open>update_query(i)\<close> with no update field (the parameter left out, or all five
  fields \<^verbatim>\<open>None\<close>) makes no network call, logs a warning and returns \<open>i\<close>.
  The code does not get that far: both calls raise
  \<^verbatim>\<open>AttributeError\<close> for \<^verbatim>\<open>query_parms\<close> and leave the world as it was, so no request is
  sent, but no warning is logged either and no id is returned.
\<close>

theorem update_query_without_fields_raises:
  "update_query http to_dict i None w = (Inl (AttributeError ''query_parms''), w) \<and>
   update_query http to_dict i (Some (UpdateQueryParams None None None None None)) w
     = (Inl (AttributeError ''query_parms''), w)"
  by (simp add: update_query_raises)

text \<open>
  C2. Claimed: when at least one field is supplied, the \<^verbatim>\<open>PATCH\<close> payload holds exactly
  the supplied fields, an empty list for tags or parameters included. The code builds the
  entries for name, description, tags and the SQL text and then fails on the attribute
  \<^verbatim>\<open>query_parms\<close>: whatever the five fields are, the call raises and the list of requests
  sent is the one before the call, so no payload leaves the client.
\<close>

theorem update_query_never_builds_payload:
  "fst (update_query http to_dict i
          (Some (UpdateQueryParams name query_sql params description tags)) w)
     = Inl (AttributeError ''query_parms'') \<and>
   sent (snd (update_query http to_dict i
          (Some (UpdateQueryParams name query_sql params description tags)) w)) = sent w"
  by (simp add: update_query_raises)

text \<open>
  C3. Claimed: with a non-empty collection of fields, \<^verbatim>\<open>update_query\<close> issues one
  \<^verbatim>\<open>PATCH /query/{i}\<close> and returns the integer under \<^verbatim>\<open>query_id\<close> of the response.
  The code: against the model service, which holds query 7, renaming query 7 sends nothing
  and returns nothing; for every transport and every argument the world after the call
  is the world before it.
\<close>

theorem update_query_never_sends_patch:
  "update_query dune_service sample_to_dict 7
     (Some (UpdateQueryParams (Some ''renamed'') None None None None)) sample_world
     = (Inl (AttributeError ''query_parms''), sample_world) \<and>
   snd (update_query http to_dict i p w) = w"
  by (simp add: update_query_raises)

text \<open>
  C4. Claimed: each of the six operations that read \<^verbatim>\<open>query_id\<close> from the action
  response raises \<^verbatim>\<open>DuneError\<close> (response, type name, key error) when the response lacks the
  key. For \<^verbatim>\<open>create_query\<close>, \<^verbatim>\<open>archive_query\<close>, \<^verbatim>\<open>unarchive_query\<close>, \<^verbatim>\<open>make_private\<close> and
  \<^verbatim>\<open>make_public\<close> this is what the lemmas \<open>create_query_missing_key\<close> to
  \<open>make_public_missing_key\<close> prove. \<^verbatim>\<open>update_query\<close> with a field supplied does not: against
  a service that answers every request with \<^verbatim>\<open>{"error": "invalid API Key"}\<close> it raises
  \<^verbatim>\<open>AttributeError\<close> before any request, where \<^verbatim>\<open>archive_query\<close> raises the \<^verbatim>\<open>DuneError\<close>.
\<close>

theorem update_query_error_payload_raises_AttributeError:
  "update_query error_service sample_to_dict 1
     (Some (UpdateQueryParams (Some ''n'') None None None None)) blank_world
     = (Inl (AttributeError ''query_parms''), blank_world) \<and>
   fst (archive_query error_service from_dict 1 blank_world)
     = Inl (DuneError (error_payload ''invalid API Key'') ''ArchiveQueryResponse''
              (KeyError ''query_id''))"
  by (simp add: update_query_raises archive_query_def action_defs error_service_def
      error_payload_def blank_world_def)

text \<open>
  C5. \<^verbatim>\<open>archive_query\<close> (and likewise \<^verbatim>\<open>unarchive_query\<close>) posts to
  \<^verbatim>\<open>/query/{i}/archive\<close> (\<^verbatim>\<open>/unarchive\<close>), then reads the query whose id the response
  carries, and returns the \<^verbatim>\<open>is_archived\<close> flag of the query it read: when the action is
  answered with an id \<open>j\<close> and the read of \<open>j\<close> decodes to \<open>dq\<close>, the result is that flag, and
  the requests sent are the action and then the read, in this order and nothing else.
\<close>

theorem archive_query_returns_refetched_flag:
  "(http (action_request i ''/archive'') (server w) = (Inr resp, sa) \<and>
    py_getitem resp ''query_id'' = Inr v \<and> py_int v = Inr j \<and>
    http (read_request j) sa = (Inr got, sb) \<and> from_dict got = Inr dq \<longrightarrow>
    archive_query http from_dict i w =
      (Inr (is_archived (meta dq)),
       w\<lparr>server := sb, sent := sent w @ [action_request i ''/archive'', read_request j]\<rparr>)) \<and>
   (http (action_request i ''/unarchive'') (server w) = (Inr resp, sa) \<and>
    py_getitem resp ''query_id'' = Inr v \<and> py_int v = Inr j \<and>
    http (read_request j) sa = (Inr got, sb) \<and> from_dict got = Inr dq \<longrightarrow>
    unarchive_query http from_dict i w =
      (Inr (is_archived (meta dq)),
       w\<lparr>server := sb, sent := sent w @ [action_request i ''/unarchive'', read_request j]\<rparr>))"
  using archive_ok [of http i w resp sa v j got sb from_dict dq]
    unarchive_ok [of http i w resp sa v j got sb from_dict dq]
  by blast

text \<open>
  Against the model service with the sample store: archiving query 7 (not archived) returns
  \<open>True\<close>, unarchiving query 8 (archived) returns \<open>False\<close>.
\<close>

theorem archive_query_returns_refetched_flag_witness:
  "archive_query dune_service from_dict_service 7 sample_world =
     (Inr True,
      \<lparr>server = snd (dune_service (action_request 7 ''/archive'' :: string request) sample_store),
         sent = [action_request 7 ''/archive'', read_request 7], warnings = []\<rparr>) \<and>
   unarchive_query dune_service from_dict_service 8 sample_world =
     (Inr False,
      \<lparr>server = snd (dune_service (action_request 8 ''/unarchive'' :: string request) sample_store),
         sent = [action_request 8 ''/unarchive'', read_request 8], warnings = []\<rparr>)"
  using
    archive_query_returns_refetched_flag [where http = dune_service
      and from_dict = from_dict_service and i = 7 and w = sample_world
      and resp = "id_payload 7" and v = "PInt 7" and j = 7
      and sa = "snd (dune_service (action_request 7 ''/archive'' :: string request) sample_store)"
      and sb = "snd (dune_service (action_request 7 ''/archive'' :: string request) sample_store)"
      and got = "query_object 7 \<lparr>st_name = ''seven'', st_sql = ''select 7'',
                   st_private = False, st_archived = True\<rparr>"
      and dq = "\<lparr>base = (7, ''seven''), meta = \<lparr>is_private = False, is_archived = True\<rparr>,
                  sql = ''select 7''\<rparr>"]
    archive_query_returns_refetched_flag [where http = dune_service
      and from_dict = from_dict_service and i = 8 and w = sample_world
      and resp = "id_payload 8" and v = "PInt 8" and j = 8
      and sa = "snd (dune_service (action_request 8 ''/unarchive'' :: string request) sample_store)"
      and sb = "snd (dune_service (action_request 8 ''/unarchive'' :: string request) sample_store)"
      and got = "query_object 8 \<lparr>st_name = ''eight'', st_sql = ''select 8'',
                   st_private = False, st_archived = False\<rparr>"
      and dq = "\<lparr>base = (8, ''eight''), meta = \<lparr>is_private = False, is_archived = False\<rparr>,
                  sql = ''select 8''\<rparr>"]
  by (simp add: service_defs action_request_def read_request_def)

text \<open>
  C6. \<^verbatim>\<open>make_private\<close> (and likewise \<^verbatim>\<open>make_public\<close>) posts the privacy action and reads the
  query back. When the \<^verbatim>\<open>is_private\<close> flag it read is not the intended one (true for
  \<^verbatim>\<open>make_private\<close>, false for \<^verbatim>\<open>make_public\<close>) the call ends with an \<^verbatim>\<open>AssertionError\<close>, which
  is not a \<^verbatim>\<open>DuneError\<close>; when it is the intended one the call returns \<^verbatim>\<open>None\<close>.
\<close>

theorem privacy_mismatch_is_assertion_failure:
  "(http (action_request i ''/private'') (server w) = (Inr resp, sa) \<and>
    py_getitem resp ''query_id'' = Inr v \<and> py_int v = Inr j \<and>
    http (read_request j) sa = (Inr got, sb) \<and> from_dict got = Inr dq \<longrightarrow>
    make_private http from_dict i w =
      (if is_private (meta dq) then Inr () else Inl AssertionError,
       w\<lparr>server := sb, sent := sent w @ [action_request i ''/private'', read_request j]\<rparr>)) \<and>
   (http (action_request i ''/unprivate'') (server w) = (Inr resp, sa) \<and>
    py_getitem resp ''query_id'' = Inr v \<and> py_int v = Inr j \<and>
    http (read_request j) sa = (Inr got, sb) \<and> from_dict got = Inr dq \<longrightarrow>
    make_public http from_dict i w =
      (if is_private (meta dq) then Inl AssertionError else Inr (),
       w\<lparr>server := sb, sent := sent w @ [action_request i ''/unprivate'', read_request j]\<rparr>))"
  using private_ok [of http i w resp sa v j got sb from_dict dq]
    public_ok [of http i w resp sa v j got sb from_dict dq]
  by blast

text \<open>
  Against the service that changes nothing, where the query read back is public:
  \<^verbatim>\<open>make_private\<close> fails its assertion, \<^verbatim>\<open>make_public\<close> returns.
\<close>

theorem privacy_mismatch_is_assertion_failure_witness:
  "fst (make_private misdirecting_service from_dict_service 8 sample_world)
     = Inl AssertionError \<and>
   fst (make_public misdirecting_service from_dict_service 8 sample_world) = Inr ()"
  using
    privacy_mismatch_is_assertion_failure [where http = misdirecting_service
      and from_dict = from_dict_service and i = 8 and w = sample_world
      and resp = "id_payload 8" and v = "PInt 8" and j = 8
      and sa = sample_store and sb = sample_store
      and got = "query_object 8 \<lparr>st_name = ''eight'', st_sql = ''select 8'',
                   st_private = False, st_archived = True\<rparr>"
      and dq = "\<lparr>base = (8, ''eight''), meta = \<lparr>is_private = False, is_archived = True\<rparr>,
                  sql = ''select 8''\<rparr>"]
  by (simp add: service_defs misdirecting_service_def action_request_def read_request_def)

text \<open>
  C7. \<^verbatim>\<open>create_query\<close> posts the payload with \<^verbatim>\<open>name\<close>, \<^verbatim>\<open>query_sql\<close> and \<^verbatim>\<open>is_private\<close>,
  and with \<^verbatim>\<open>parameters\<close> exactly when a parameter list is given (an empty list included);
  when the response carries an id under \<^verbatim>\<open>query_id\<close> it reads the query of that id and
  returns the query object of that read.
\<close>

theorem create_query_posts_then_reads:
  "map_result to_dict (case params of None \<Rightarrow> [] | Some ps \<Rightarrow> ps) = Inr ds \<and>
   payload = PDict ([(''name'', PStr name), (''query_sql'', PStr query_sql),
                     (''is_private'', PBool is_priv)]
                    @ (case params of None \<Rightarrow> [] | Some ps \<Rightarrow> [(''parameters'', PList ds)])) \<and>
   http \<lparr>verb = POST, route = ''/query/'', body = Some payload\<rparr> (server w) = (Inr resp, sa) \<and>
   py_getitem resp ''query_id'' = Inr v \<and> py_int v = Inr j \<and>
   http (read_request j) sa = (Inr got, sb) \<and> from_dict got = Inr dq \<longrightarrow>
   create_query http from_dict to_dict name query_sql params is_priv w =
     (Inr dq,
      w\<lparr>server := sb,
          sent := sent w @ [\<lparr>verb = POST, route = ''/query/'', body = Some payload\<rparr>,
                            read_request j]\<rparr>)"
  using create_ok [of to_dict params ds payload name query_sql is_priv http w resp sa v j got sb
      from_dict dq]
  by blast

text \<open>
  Against the model service with the sample store: the new query gets the id 9, with one
  parameter in the payload, and without a parameter list the payload has three entries.
\<close>

theorem create_query_posts_then_reads_witness:
  "create_query dune_service from_dict_service sample_to_dict ''test_create'' ''''
     (Some [''TextField'']) False sample_world =
     (Inr \<lparr>base = (9, ''test_create''), meta = \<lparr>is_private = False, is_archived = False\<rparr>,
           sql = ''''\<rparr>,
      \<lparr>server = sample_store @ [(9, \<lparr>st_name = ''test_create'', st_sql = '''',
                                     st_private = False, st_archived = False\<rparr>)],
         sent = [\<lparr>verb = POST, route = ''/query/'',
                   body = Some (PDict [(''name'', PStr ''test_create''), (''query_sql'', PStr ''''),
                     (''is_private'', PBool False),
                     (''parameters'', PList [PDict [(''key'', PStr ''TextField'')]])])\<rparr>,
                 read_request 9],
         warnings = []\<rparr>) \<and>
   sent (snd (create_query dune_service from_dict_service sample_to_dict ''test_create'' ''''
     None False sample_world)) =
     [\<lparr>verb = POST, route = ''/query/'',
        body = Some (PDict [(''name'', PStr ''test_create''), (''query_sql'', PStr ''''),
                     (''is_private'', PBool False)])\<rparr>,
      read_request 9]"
  using
    create_query_posts_then_reads [where http = dune_service and from_dict = from_dict_service
      and to_dict = sample_to_dict and name = "''test_create''" and query_sql = "''''"
      and params = "Some [''TextField'']" and is_priv = False and w = sample_world
      and ds = "[PDict [(''key'', PStr ''TextField'')]]"
      and payload = "PDict [(''name'', PStr ''test_create''), (''query_sql'', PStr ''''),
              (''is_private'', PBool False),
              (''parameters'', PList [PDict [(''key'', PStr ''TextField'')]])]"
      and resp = "id_payload 9" and v = "PInt 9" and j = 9
      and sa = "sample_store @ [(9, \<lparr>st_name = ''test_create'', st_sql = '''',
                                     st_private = False, st_archived = False\<rparr>)]"
      and sb = "sample_store @ [(9, \<lparr>st_name = ''test_create'', st_sql = '''',
                                     st_private = False, st_archived = False\<rparr>)]"
      and got = "query_object 9 \<lparr>st_name = ''test_create'', st_sql = '''',
                   st_private = False, st_archived = False\<rparr>"
      and dq = "\<lparr>base = (9, ''test_create''),
                  meta = \<lparr>is_private = False, is_archived = False\<rparr>, sql = ''''\<rparr>"]
    create_query_posts_then_reads [where http = dune_service and from_dict = from_dict_service
      and to_dict = sample_to_dict and name = "''test_create''" and query_sql = "''''"
      and params = None and is_priv = False and w = sample_world
      and ds = "[]"
      and payload = "PDict [(''name'', PStr ''test_create''), (''query_sql'', PStr ''''),
              (''is_private'', PBool False)]"
      and resp = "id_payload 9" and v = "PInt 9" and j = 9
      and sa = "sample_store @ [(9, \<lparr>st_name = ''test_create'', st_sql = '''',
                                     st_private = False, st_archived = False\<rparr>)]"
      and sb = "sample_store @ [(9, \<lparr>st_name = ''test_create'', st_sql = '''',
                                     st_private = False, st_archived = False\<rparr>)]"
      and got = "query_object 9 \<lparr>st_name = ''test_create'', st_sql = '''',
                   st_private = False, st_archived = False\<rparr>"
      and dq = "\<lparr>base = (9, ''test_create''),
                  meta = \<lparr>is_private = False, is_archived = False\<rparr>, sql = ''''\<rparr>"]
  by (simp add: service_defs sample_to_dict_def read_request_def)

text \<open>
  C8. Under a transport that honours the archive routes for the query \<open>i\<close>, and when that
  query exists, \<^verbatim>\<open>archive_query\<close> followed by \<^verbatim>\<open>unarchive_query\<close> on \<open>i\<close> returns
  \<open>True\<close> and then \<open>False\<close>, and the flag of the query makes the same transition: it is set
  in the state of the service after the first call and cleared after the second. The two
  calls send the archive action, a read, the unarchive action and a read, in this order
  and nothing else.
\<close>

theorem archive_then_unarchive_true_then_false:
  assumes hon: "honors_archive_routes http from_dict flag i"
    and ex: "flag (server w) \<noteq> None"
  shows "fst (archive_query http from_dict i w) = Inr True \<and>
         flag (server (snd (archive_query http from_dict i w))) = Some True \<and>
         sent (snd (archive_query http from_dict i w)) =
           sent w @ [action_request i ''/archive'', read_request i] \<and>
         fst (unarchive_query http from_dict i (snd (archive_query http from_dict i w)))
           = Inr False \<and>
         flag (server (snd (unarchive_query http from_dict i
                 (snd (archive_query http from_dict i w))))) = Some False \<and>
         sent (snd (unarchive_query http from_dict i
                 (snd (archive_query http from_dict i w)))) =
           sent w @ [action_request i ''/archive'', read_request i,
                     action_request i ''/unarchive'', read_request i] \<and>
         warnings (snd (unarchive_query http from_dict i
                 (snd (archive_query http from_dict i w)))) = warnings w"
proof -
  from hon ex obtain resp v sa where
    a: "http (action_request i ''/archive'') (server w) = (Inr resp, sa)"
       "py_getitem resp ''query_id'' = Inr v" "py_int v = Inr i" "flag sa = Some True"
    unfolding honors_archive_routes_def by blast
  from a(4) have "flag sa \<noteq> None" by simp
  with hon obtain got dq sb where
    g: "http (read_request i) sa = (Inr got, sb)" "from_dict got = Inr dq"
       "flag sa = Some (is_archived (meta dq))" "flag sb = flag sa"
    unfolding honors_archive_routes_def by blast
  let ?w1 = "w\<lparr>server := sb, sent := sent w @ [action_request i ''/archive'', read_request i]\<rparr>"
  have r1: "archive_query http from_dict i w = (Inr True, ?w1)"
    using archive_ok [of http i w resp sa v i got sb from_dict dq] a g by simp
  have f1: "flag (server ?w1) = Some True" using g(4) a(4) by simp
  then have "flag (server ?w1) \<noteq> None" by simp
  with hon obtain resp' v' sc where
    u: "http (action_request i ''/unarchive'') (server ?w1) = (Inr resp', sc)"
       "py_getitem resp' ''query_id'' = Inr v'" "py_int v' = Inr i" "flag sc = Some False"
    unfolding honors_archive_routes_def by blast
  from u(4) have "flag sc \<noteq> None" by simp
  with hon obtain got' dq' sd where
    h: "http (read_request i) sc = (Inr got', sd)" "from_dict got' = Inr dq'"
       "flag sc = Some (is_archived (meta dq'))" "flag sd = flag sc"
    unfolding honors_archive_routes_def by blast
  let ?w2 = "?w1\<lparr>server := sd,
      sent := sent ?w1 @ [action_request i ''/unarchive'', read_request i]\<rparr>"
  have r2: "unarchive_query http from_dict i ?w1 = (Inr False, ?w2)"
    using unarchive_ok [of http i ?w1 resp' sc v' i got' sd from_dict dq'] u h by simp
  have f2: "flag (server ?w2) = Some False" using h(4) u(4) by simp
  have s1: "sent ?w1 = sent w @ [action_request i ''/archive'', read_request i]" by simp
  have s2: "sent ?w2 = sent w @ [action_request i ''/archive'', read_request i,
      action_request i ''/unarchive'', read_request i]" by simp
  have l2: "warnings ?w2 = warnings w" by simp
  show ?thesis
    unfolding r1 r2 fst_conv snd_conv using f1 f2 s1 s2 l2 by blast
qed

text \<open>
  The model service honours the routes; query 7 of the sample store exists and is not
  archived before the two calls.
\<close>

theorem archive_then_unarchive_true_then_false_witness:
  "honors_archive_routes (dune_service :: (service, string) transport) from_dict_service
     (archived_flag 7) 7 \<and>
   archived_flag 7 (server sample_world) = Some False \<and>
   fst (archive_query dune_service from_dict_service 7 sample_world) = Inr True \<and>
   archived_flag 7 (server (snd (archive_query dune_service from_dict_service 7 sample_world)))
     = Some True \<and>
   fst (unarchive_query dune_service from_dict_service 7
          (snd (archive_query dune_service from_dict_service 7 sample_world))) = Inr False \<and>
   archived_flag 7 (server (snd (unarchive_query dune_service from_dict_service 7
          (snd (archive_query dune_service from_dict_service 7 sample_world))))) = Some False \<and>
   sent (snd (unarchive_query dune_service from_dict_service 7
          (snd (archive_query dune_service from_dict_service 7 sample_world)))) =
     [action_request 7 ''/archive'', read_request 7,
      action_request 7 ''/unarchive'', read_request 7]"
proof -
  have hon: "honors_archive_routes (dune_service :: (service, string) transport)
      from_dict_service (archived_flag 7) 7"
    using dune_service_honors [of 7] by simp
  have fl: "archived_flag 7 (server sample_world) = Some False"
    by (simp add: archived_flag_def sample_world_def sample_store_def)
  then have ex: "archived_flag 7 (server sample_world) \<noteq> None" by simp
  have se: "sent sample_world = []" by (simp add: sample_world_def)
  show ?thesis
    using hon fl se archive_then_unarchive_true_then_false [OF hon ex] by simp
qed

text \<open>
  C9. The read that follows an action asks for the id found under \<^verbatim>\<open>query_id\<close> in the
  action's response, not for the caller's id: when the response carries the id \<open>j\<close>, each
  of the four operations continues as the read of \<open>j\<close> does, whatever \<open>i\<close> was, and the
  flag it returns or asserts is the flag of the query \<open>j\<close>.
\<close>

theorem refetch_uses_echoed_id:
  "py_getitem resp ''query_id'' = Inr v \<and> py_int v = Inr j \<longrightarrow>
   (http (action_request i ''/archive'') (server w) = (Inr resp, sa) \<longrightarrow>
      archive_query http from_dict i w =
        except_KeyError
          (and_then (get_query http from_dict j) (\<lambda>dq. returns (is_archived (meta dq))))
          (\<lambda>err. raises (DuneError resp ''ArchiveQueryResponse'' err))
          (w\<lparr>server := sa, sent := sent w @ [action_request i ''/archive'']\<rparr>)) \<and>
   (http (action_request i ''/unarchive'') (server w) = (Inr resp, sa) \<longrightarrow>
      unarchive_query http from_dict i w =
        except_KeyError
          (and_then (get_query http from_dict j) (\<lambda>dq. returns (is_archived (meta dq))))
          (\<lambda>err. raises (DuneError resp ''UnarchiveQueryResponse'' err))
          (w\<lparr>server := sa, sent := sent w @ [action_request i ''/unarchive'']\<rparr>)) \<and>
   (http (action_request i ''/private'') (server w) = (Inr resp, sa) \<longrightarrow>
      make_private http from_dict i w =
        except_KeyError
          (and_then (get_query http from_dict j) (\<lambda>dq. py_assert (is_private (meta dq))))
          (\<lambda>err. raises (DuneError resp ''MakePrivateResponse'' err))
          (w\<lparr>server := sa, sent := sent w @ [action_request i ''/private'']\<rparr>)) \<and>
   (http (action_request i ''/unprivate'') (server w) = (Inr resp, sa) \<longrightarrow>
      make_public http from_dict i w =
        except_KeyError
          (and_then (get_query http from_dict j) (\<lambda>dq. py_assert (\<not> is_private (meta dq))))
          (\<lambda>err. raises (DuneError resp ''MakePublicResponse'' err))
          (w\<lparr>server := sa, sent := sent w @ [action_request i ''/unprivate'']\<rparr>))"
  by (simp add: archive_query_def unarchive_query_def make_private_def make_public_def
      and_then_def lift_result_def except_KeyError_def router_post_def send_def
      action_request_def)

text \<open>
  Against the service that answers every action with the id 8: the operations are called
  for query 7, which is not archived, and report on query 8, which is archived and public.
\<close>

theorem refetch_uses_echoed_id_witness:
  "archived_flag 7 sample_store = Some False \<and>
   archive_query misdirecting_service from_dict_service 7 sample_world =
     (Inr True, \<lparr>server = sample_store,
        sent = [action_request 7 ''/archive'', read_request 8], warnings = []\<rparr>) \<and>
   unarchive_query misdirecting_service from_dict_service 7 sample_world =
     (Inr True, \<lparr>server = sample_store,
        sent = [action_request 7 ''/unarchive'', read_request 8], warnings = []\<rparr>) \<and>
   make_private misdirecting_service from_dict_service 7 sample_world =
     (Inl AssertionError, \<lparr>server = sample_store,
        sent = [action_request 7 ''/private'', read_request 8], warnings = []\<rparr>) \<and>
   make_public misdirecting_service from_dict_service 7 sample_world =
     (Inr (), \<lparr>server = sample_store,
        sent = [action_request 7 ''/unprivate'', read_request 8], warnings = []\<rparr>)"
  using refetch_uses_echoed_id [where http = misdirecting_service
      and from_dict = from_dict_service and i = 7 and w = sample_world
      and resp = "id_payload 8" and v = "PInt 8" and j = 8 and sa = sample_store]
  by (simp add: service_defs misdirecting_service_def get_query_def action_defs
      archived_flag_def)

text \<open>
  C10. Claimed: in each of the six operations, a \<^verbatim>\<open>query_id\<close> that \<^verbatim>\<open>int\<close> cannot convert
  makes the conversion error reach the caller as it is, not wrapped in a \<^verbatim>\<open>DuneError\<close>. For
  \<^verbatim>\<open>create_query\<close>, \<^verbatim>\<open>archive_query\<close>, \<^verbatim>\<open>unarchive_query\<close>, \<^verbatim>\<open>make_private\<close> and
  \<^verbatim>\<open>make_public\<close> this is what the lemmas \<open>create_query_bad_id\<close> to \<open>make_public_bad_id\<close>
  prove. \<^verbatim>\<open>update_query\<close> does not: against a service that answers every request with
  \<^verbatim>\<open>{"query_id": "abc"}\<close> it raises \<^verbatim>\<open>AttributeError\<close> before any request, where
  \<^verbatim>\<open>archive_query\<close> raises the \<^verbatim>\<open>ValueError\<close> of the conversion.
\<close>

theorem update_query_bad_id_raises_AttributeError:
  "update_query garbled_service sample_to_dict 1
     (Some (UpdateQueryParams None (Some ''select 1'') None None None)) blank_world
     = (Inl (AttributeError ''query_parms''), blank_world) \<and>
   py_int (PStr ''abc'' :: string py) = Inl ValueError \<and>
   fst (archive_query garbled_service from_dict 1 blank_world) = Inl ValueError"
  by (simp add: update_query_raises archive_query_def action_defs garbled_service_def
      blank_world_def int_of_str_def py_isspace_def parse_unsigned_def py_isdigit_def)

end
